theory Spec2Isabelle
  imports Main "HOL-Library.Sublist" "HOL-Library.Word"
begin

section \<open>PR-Insight-Bot: the pull-request assistant of \<^verbatim>\<open>ci_cd_assistant.py\<close>\<close>

text \<open>
  The script reads four environment variables, fetches a pull request's metadata and
  file patches, builds a prompt, asks a chat-completion endpoint for a review and posts
  the answer as a comment. The embedding follows the source function by function.

  A Python \<open>str\<close> is a \<^typ>\<open>string\<close> with one \<^typ>\<open>char\<close> for each code point, so
  that \<^const>\<open>length\<close> is Python's \<open>len\<close> and \<^const>\<open>take\<close> is a slice. No definition
  or proof below uses a property of the alphabet other than the identity of the
  characters the source itself names (newline, space, tab).
\<close>

subsection \<open>Configuration constants\<close>

definition OPENROUTER_URL :: string where
  "OPENROUTER_URL = ''https://openrouter.ai/api/v1/chat/completions''"

definition DEEPSEEK_MODEL :: string where
  "DEEPSEEK_MODEL = ''deepseek/deepseek-r1:free''"

definition MAX_DIFF_CHARS :: int where
  "MAX_DIFF_CHARS = 20000"

definition MAX_PROMPT_TOKENS :: int where
  "MAX_PROMPT_TOKENS = 3000"

definition AI_MAX_TOKENS :: int where
  "AI_MAX_TOKENS = 1500"

text \<open>\<open>TEMPERATURE = 0.1\<close>: a Python float is an IEEE 754 binary64 value, kept as its bits.\<close>

definition TEMPERATURE :: "64 word" where
  "TEMPERATURE = 0x3FB999999999999A"

subsection \<open>Python string helpers\<close>

text \<open>\<open>sep.join(parts)\<close>.\<close>

fun join :: "string \<Rightarrow> string list \<Rightarrow> string" where
  "join sep [] = []"
| "join sep [p] = p"
| "join sep (p # q # ps) = p @ sep @ join sep (q # ps)"

text \<open>
  The slice \<open>s[:n]\<close> for an \<open>int\<close> \<open>n\<close>: the first \<open>n\<close> characters, and for a negative
  \<open>n\<close> all but the last \<open>-n\<close> (nothing when \<open>s\<close> is shorter than that).
\<close>

definition slice_to :: "int \<Rightarrow> string \<Rightarrow> string" where
  "slice_to n s = (if 0 \<le> n then take (nat n) s else take (nat (int (length s) + n)) s)"

subsection \<open>File changes and \<open>build_diff_text\<close>\<close>

text \<open>
  One element of the list that the files endpoint returns, as far as the script reads
  it: the value of the key \<open>filename\<close> (\<open>None\<close> when the key is missing) and the value of
  the key \<open>patch\<close> (\<open>None\<close> when the key is missing or \<open>null\<close>, which is what
  \<open>f.get("patch")\<close> gives in both cases). The values are strings, as the hosting API
  documents them.
\<close>

record file_change =
  filename :: "string option"
  patch :: "string option"

text \<open>\<open>f.get("filename", "<unknown>")\<close>.\<close>

definition get_filename :: "file_change \<Rightarrow> string" where
  "get_filename f = (case filename f of None \<Rightarrow> ''<unknown>'' | Some n \<Rightarrow> n)"

text \<open>The test \<open>if patch:\<close> on a value that is \<open>None\<close> or a string.\<close>

definition truthy :: "string option \<Rightarrow> bool" where
  "truthy v = (case v of None \<Rightarrow> False | Some s \<Rightarrow> s \<noteq> [])"

text \<open>The body of the \<open>for\<close> loop: the element appended to \<open>parts\<close> for the file \<open>f\<close>.\<close>

definition file_part :: "file_change \<Rightarrow> string" where
  "file_part f =
     (let filename = get_filename f;
          patch = patch f;
          header = ''\<newline>\<newline># File: '' @ filename @ ''\<newline>''
      in if truthy patch then header @ the patch
         else header @ ''[no patch available for '' @ filename @ '' (binary or too large)]'')"

text \<open>The loop: \<open>parts = []\<close>, then one \<open>parts.append\<close> for each file in turn.\<close>

definition diff_parts :: "file_change list \<Rightarrow> string list" where
  "diff_parts files_json = fold (\<lambda>f parts. parts @ [file_part f]) files_json []"

text \<open>\<open>full = "\n".join(parts)\<close>.\<close>

definition full_text :: "file_change list \<Rightarrow> string" where
  "full_text files_json = join ''\<newline>'' (diff_parts files_json)"

definition build_diff_text :: "file_change list \<Rightarrow> int \<Rightarrow> string" where
  "build_diff_text files_json max_chars =
     (let full = full_text files_json
      in if int (length full) > max_chars
         then slice_to max_chars full @ ''\<newline>\<newline>...[diff truncated]...''
         else full)"

subsection \<open>Notions used to state the properties\<close>

text \<open>The patch of a file as text: empty when the file has none.\<close>

definition patch_text :: "file_change \<Rightarrow> string" where
  "patch_text f = (case patch f of None \<Rightarrow> [] | Some p \<Rightarrow> p)"

text \<open>The header line that names a file, with the two newlines in front of it.\<close>

definition header_line :: "file_change \<Rightarrow> string" where
  "header_line f = ''\<newline>\<newline># File: '' @ get_filename f @ ''\<newline>''"

text \<open>The placeholder line of a file without a patch.\<close>

definition placeholder_line :: "file_change \<Rightarrow> string" where
  "placeholder_line f = ''[no patch available for '' @ get_filename f @ '' (binary or too large)]''"

text \<open>
  \<open>blocks_in_order bs s\<close>: the texts \<open>bs\<close> occur in \<open>s\<close> one after the other, without
  overlap, in the order of the list.
\<close>

fun blocks_in_order :: "string list \<Rightarrow> string \<Rightarrow> bool" where
  "blocks_in_order [] s = True"
| "blocks_in_order (b # bs) s = (\<exists>pre post. s = pre @ b @ post \<and> blocks_in_order bs post)"

subsection \<open>\<open>textwrap.dedent\<close> and \<open>build_prompt\<close>\<close>

text \<open>
  \<open>textwrap.dedent\<close> of the Python standard library, as documented and as CPython 3.11
  implements it with three regular expressions: a line made only of spaces and tabs
  becomes an empty line; the margin is the longest run of spaces and tabs that starts
  every line holding another character; a margin that is not empty is removed from the
  start of each line that has it. Lines are separated by the newline character. The
  script applies it to the template after the title, the body and the diff text have
  been inserted.
\<close>

definition is_blank :: "char \<Rightarrow> bool" where
  "is_blank c = (c = CHR '' '' \<or> c = CHR 0x09)"

fun split_lines :: "string \<Rightarrow> string list" where
  "split_lines [] = [[]]"
| "split_lines (c # cs) =
     (if c = CHR ''\<newline>'' then [] # split_lines cs
      else (case split_lines cs of [] \<Rightarrow> [[c]] | l # ls \<Rightarrow> (c # l) # ls))"

text \<open>\<open>_whitespace_only_re.sub('', text)\<close>, with the pattern \<open>^[ \t]+$\<close>, on one line.\<close>

definition blank_out :: "string \<Rightarrow> string" where
  "blank_out l = (if l \<noteq> [] \<and> list_all is_blank l then [] else l)"

text \<open>
  \<open>_leading_whitespace_re.findall(text)\<close>, with the pattern \<open>(^[ \t]*)(?:[^ \t\n])\<close>: the
  leading spaces and tabs of each line that holds another character.
\<close>

definition indents :: "string list \<Rightarrow> string list" where
  "indents ls = map (takeWhile is_blank) (filter (\<lambda>l. dropWhile is_blank l \<noteq> []) ls)"

text \<open>
  The inner loop \<open>for i, (x, y) in enumerate(zip(margin, indent))\<close>: the margin is cut at
  the first position where the two differ, and stays as it is when there is none.
\<close>

fun cut_at_mismatch :: "string \<Rightarrow> string \<Rightarrow> string" where
  "cut_at_mismatch (x # xs) (y # ys) = (if x \<noteq> y then [] else x # cut_at_mismatch xs ys)"
| "cut_at_mismatch xs ys = xs"

text \<open>One round of the loop \<open>for indent in indents\<close>; the margin starts as \<open>None\<close>.\<close>

fun margin_step :: "string \<Rightarrow> string option \<Rightarrow> string option" where
  "margin_step indent None = Some indent"
| "margin_step indent (Some margin) =
     (if prefix margin indent then Some margin
      else if prefix indent margin then Some indent
      else Some (cut_at_mismatch margin indent))"

text \<open>\<open>re.sub(r'(?m)^' + margin, '', text)\<close> on one line.\<close>

definition strip_margin :: "string \<Rightarrow> string \<Rightarrow> string" where
  "strip_margin margin l = (if prefix margin l then drop (length margin) l else l)"

definition dedent :: "string \<Rightarrow> string" where
  "dedent text =
     (let ls = map blank_out (split_lines text);
          margin = fold margin_step (indents ls) None
      in join ''\<newline>''
           (if truthy margin then map (strip_margin (the margin)) ls else ls))"

definition build_prompt :: "string \<Rightarrow> string \<Rightarrow> string \<Rightarrow> string" where
  "build_prompt pr_title pr_body diff_text =
     dedent (
        ''\<newline>'' @
        ''    You are a helpful CI assistant. Given a pull request title, description and code diff, do the following:\<newline>'' @
        ''\<newline>'' @
        ''    1) Produce an improved PR description (clear, 2-4 sentences).\<newline>'' @
        ''    2) Provide a short human-readable summary of the code changes (3-6 sentences).\<newline>'' @
        ''    3) Suggest tests / checks that appear to be missing or desirable (bullet list).\<newline>'' @
        ''    4) Provide any quick code quality notes (possible bugs, style issues, risky changes).\<newline>'' @
        ''    \<newline>'' @
        ''    Reply in Markdown. Use headings:\<newline>'' @
        ''    ## Improved PR Description\<newline>'' @
        ''    ## Summary\<newline>'' @
        ''    ## Suggested Tests\<newline>'' @
        ''    ## Notes\<newline>'' @
        ''\<newline>'' @
        ''    PR Title:\<newline>'' @
        ''    '' @ pr_title @ ''\<newline>'' @
        ''\<newline>'' @
        ''    PR Description:\<newline>'' @
        ''    '' @ pr_body @ ''\<newline>'' @
        ''\<newline>'' @
        ''    Diff (truncated):\<newline>'' @
        ''    '' @ diff_text @ ''\<newline>'' @
        ''\<newline>'' @
        ''    IMPORTANT: Keep the answer concise and practical.\<newline>'' @
        ''    '')"

text \<open>The first thirteen lines of the template: the lines before the title is inserted.\<close>

definition template_head :: "string list" where
  "template_head =
     [[],
      ''    You are a helpful CI assistant. Given a pull request title, description and code diff, do the following:'',
      [],
      ''    1) Produce an improved PR description (clear, 2-4 sentences).'',
      ''    2) Provide a short human-readable summary of the code changes (3-6 sentences).'',
      ''    3) Suggest tests / checks that appear to be missing or desirable (bullet list).'',
      ''    4) Provide any quick code quality notes (possible bugs, style issues, risky changes).'',
      ''    '',
      ''    Reply in Markdown. Use headings:'',
      ''    ## Improved PR Description'',
      ''    ## Summary'',
      ''    ## Suggested Tests'',
      ''    ## Notes'']"

subsection \<open>JSON values and the libraries taken as parameters\<close>

text \<open>
  What \<open>r.json()\<close> returns: \<open>None\<close>, a \<open>bool\<close>, an \<open>int\<close>, a \<open>float\<close> (its 64 bits), a
  \<open>str\<close>, a \<open>list\<close> or a \<open>dict\<close> with string keys (its items in order, the keys distinct).
\<close>

datatype json =
    JNull
  | JBool bool
  | JInt int
  | JFloat "64 word"
  | JStr string
  | JArr "json list"
  | JObj "(string \<times> json) list"

text \<open>
  Two functions of Python that the script calls on such a value and that are not part
  of the repository: \<open>json.dumps(v, indent=2)\<close> and the conversion \<open>str(v)\<close> that an
  f-string applies. They are parameters of the model; nothing is assumed about them.
\<close>

record pylib =
  json_dumps :: "json \<Rightarrow> string"
  py_str :: "json \<Rightarrow> string"

text \<open>\<open>f"{v}"\<close>: a \<open>str\<close> is inserted as it is.\<close>

definition format_value :: "pylib \<Rightarrow> json \<Rightarrow> string" where
  "format_value lib v = (case v of JStr s \<Rightarrow> s | _ \<Rightarrow> py_str lib v)"

datatype py_error = KeyError | IndexError | TypeError

text \<open>\<open>v[key]\<close> for a string key: only a \<open>dict\<close> can be subscripted with a string.\<close>

fun getitem_str :: "json \<Rightarrow> string \<Rightarrow> py_error + json" where
  "getitem_str (JObj items) key =
     (case map_of items key of None \<Rightarrow> Inl KeyError | Some v \<Rightarrow> Inr v)"
| "getitem_str v key = Inl TypeError"

text \<open>
  \<open>v[0]\<close>: the first element of a \<open>list\<close>, the first character of a \<open>str\<close>; a \<open>dict\<close>
  decoded from JSON has no key \<open>0\<close>.
\<close>

fun getitem_0 :: "json \<Rightarrow> py_error + json" where
  "getitem_0 (JArr []) = Inl IndexError"
| "getitem_0 (JArr (x # xs)) = Inr x"
| "getitem_0 (JStr []) = Inl IndexError"
| "getitem_0 (JStr (c # cs)) = Inr (JStr [c])"
| "getitem_0 (JObj items) = Inl KeyError"
| "getitem_0 v = Inl TypeError"

text \<open>\<open>res["choices"][0]["message"]["content"]\<close>.\<close>

definition content_path :: "json \<Rightarrow> py_error + json" where
  "content_path res =
     (case getitem_str res ''choices'' of Inl e \<Rightarrow> Inl e | Inr choices \<Rightarrow>
      case getitem_0 choices of Inl e \<Rightarrow> Inl e | Inr choice \<Rightarrow>
      case getitem_str choice ''message'' of Inl e \<Rightarrow> Inl e | Inr message \<Rightarrow>
      getitem_str message ''content'')"

text \<open>The \<open>try\<close> ... \<open>except Exception\<close> block of \<open>call_deepseek\<close>.\<close>

definition extract_content :: "pylib \<Rightarrow> json \<Rightarrow> json" where
  "extract_content lib res =
     (case content_path res of Inr content \<Rightarrow> content | Inl e \<Rightarrow> JStr (json_dumps lib res))"

subsection \<open>Requests, replies and the trace of a run\<close>

datatype http_method = GET | POST

record request =
  req_method :: http_method
  req_url :: string
  req_headers :: "(string \<times> string) list"
  req_json :: "json option"
  req_timeout :: nat

text \<open>
  What one call of \<open>requests.get\<close> or \<open>requests.post\<close> meets: no response at all (the
  library raises an exception that is not an \<open>HTTPError\<close>, such as a connection error or
  a timeout, with the given message), or a response with its status code, its text, and
  what \<open>r.json()\<close> makes of it: the decoded value, or the message of the exception it
  raises when the text is not JSON.
\<close>

datatype 'a reply =
    No_response string
  | Response int string "string + 'a"

text \<open>
  The exceptions that reach the handlers of \<open>main\<close>: \<open>requests.HTTPError\<close> with the status
  code and the text of its response, or another exception with its message.
\<close>

datatype exn = HTTPError int string | Exception string

text \<open>\<open>r.raise_for_status()\<close>: status codes from 400 to 599 raise \<open>HTTPError\<close>.\<close>

definition raise_for_status :: "int \<Rightarrow> string \<Rightarrow> exn + unit" where
  "raise_for_status status_code text =
     (if 400 \<le> status_code \<and> status_code < 600 then Inl (HTTPError status_code text)
      else Inr ())"

text \<open>The three steps the four fetching functions share: the call, the status check, \<open>r.json()\<close>.\<close>

fun fetch_json :: "'a reply \<Rightarrow> exn + 'a" where
  "fetch_json (No_response msg) = Inl (Exception msg)"
| "fetch_json (Response status_code text decoded) =
     (case raise_for_status status_code text of
        Inl e \<Rightarrow> Inl e
      | Inr u \<Rightarrow> (case decoded of Inl msg \<Rightarrow> Inl (Exception msg) | Inr v \<Rightarrow> Inr v))"

text \<open>
  The trace of a run: what is printed (the arguments of each \<open>print\<close>) and each HTTP
  request with the way it ended.
\<close>

datatype pyval = PStr string | PInt int | PNone

datatype outcome = Raised exn | Returned

datatype event = Print "pyval list" | Http request outcome

type_synonym 'a io = "event list \<times> (exn + 'a)"

definition print :: "pyval list \<Rightarrow> unit io" where
  "print args = ([Print args], Inr ())"

text \<open>Sequencing: an exception ends the sequence and keeps the trace so far.\<close>

definition bind :: "'a io \<Rightarrow> ('a \<Rightarrow> 'b io) \<Rightarrow> 'b io" where
  "bind m k =
     (case m of
        (evs, Inl e) \<Rightarrow> (evs, Inl e)
      | (evs, Inr x) \<Rightarrow> (case k x of (evs', r) \<Rightarrow> (evs @ evs', r)))"

definition call :: "(request \<Rightarrow> 'a reply) \<Rightarrow> request \<Rightarrow> 'a io" where
  "call endpoint req =
     (case fetch_json (endpoint req) of
        Inl e \<Rightarrow> ([Http req (Raised e)], Inl e)
      | Inr v \<Rightarrow> ([Http req Returned], Inr v))"

text \<open>
  The decoded bodies of the hosting API as far as the script reads them: the keys
  \<open>title\<close> and \<open>body\<close> of a pull request (\<open>None\<close> for a missing key, for \<open>body\<close> also for
  \<open>null\<close>), and the key \<open>id\<close> of a created comment.
\<close>

record pull_request =
  title_field :: "string option"
  body_field :: "string option"

record comment =
  id_field :: "int option"

text \<open>The servers: one reply for each request, by endpoint.\<close>

record world =
  pulls_endpoint :: "request \<Rightarrow> pull_request reply"
  files_endpoint :: "request \<Rightarrow> file_change list reply"
  chat_endpoint :: "request \<Rightarrow> json reply"
  comments_endpoint :: "request \<Rightarrow> comment reply"

subsection \<open>The module-level configuration and the five functions\<close>

text \<open>The four globals read from the environment, once the check has passed.\<close>

record config =
  GITHUB_REPOSITORY :: string
  GITHUB_TOKEN :: string
  PR_NUMBER :: string
  OPENROUTER_API_KEY :: string

definition GITHUB_API_URL :: "config \<Rightarrow> string" where
  "GITHUB_API_URL cfg = ''https://api.github.com/repos/'' @ GITHUB_REPOSITORY cfg"

definition github_headers :: "config \<Rightarrow> (string \<times> string) list" where
  "github_headers cfg =
     [(''Authorization'', ''token '' @ GITHUB_TOKEN cfg),
      (''Accept'', ''application/vnd.github.v3+json'')]"

definition pulls_request :: "config \<Rightarrow> string \<Rightarrow> request" where
  "pulls_request cfg pr_number =
     \<lparr>req_method = GET, req_url = GITHUB_API_URL cfg @ ''/pulls/'' @ pr_number,
      req_headers = github_headers cfg, req_json = None, req_timeout = 30\<rparr>"

definition get_pr_meta :: "config \<Rightarrow> world \<Rightarrow> string \<Rightarrow> pull_request io" where
  "get_pr_meta cfg w pr_number = call (pulls_endpoint w) (pulls_request cfg pr_number)"

definition files_request :: "config \<Rightarrow> string \<Rightarrow> request" where
  "files_request cfg pr_number =
     \<lparr>req_method = GET, req_url = GITHUB_API_URL cfg @ ''/pulls/'' @ pr_number @ ''/files'',
      req_headers = github_headers cfg, req_json = None, req_timeout = 30\<rparr>"

definition get_pr_files_patches :: "config \<Rightarrow> world \<Rightarrow> string \<Rightarrow> file_change list io" where
  "get_pr_files_patches cfg w pr_number = call (files_endpoint w) (files_request cfg pr_number)"

definition chat_request :: "config \<Rightarrow> string \<Rightarrow> request" where
  "chat_request cfg prompt =
     \<lparr>req_method = POST, req_url = OPENROUTER_URL,
      req_headers =
        [(''Authorization'', ''Bearer '' @ OPENROUTER_API_KEY cfg),
         (''Content-Type'', ''application/json'')],
      req_json = Some (JObj
        [(''model'', JStr DEEPSEEK_MODEL),
         (''messages'', JArr
            [JObj [(''role'', JStr ''system''),
                   (''content'', JStr ''You are a CI/CD assistant that summarizes diffs and suggests tests.'')],
             JObj [(''role'', JStr ''user''), (''content'', JStr prompt)]]),
         (''temperature'', JFloat TEMPERATURE),
         (''max_tokens'', JInt AI_MAX_TOKENS)]),
      req_timeout = 60\<rparr>"

definition call_deepseek :: "pylib \<Rightarrow> config \<Rightarrow> world \<Rightarrow> string \<Rightarrow> json io" where
  "call_deepseek lib cfg w prompt =
     bind (call (chat_endpoint w) (chat_request cfg prompt))
       (\<lambda>res. ([], Inr (extract_content lib res)))"

definition comment_request :: "config \<Rightarrow> string \<Rightarrow> string \<Rightarrow> request" where
  "comment_request cfg pr_number body =
     \<lparr>req_method = POST, req_url = GITHUB_API_URL cfg @ ''/issues/'' @ pr_number @ ''/comments'',
      req_headers = github_headers cfg, req_json = Some (JObj [(''body'', JStr body)]),
      req_timeout = 30\<rparr>"

definition post_pr_comment :: "config \<Rightarrow> world \<Rightarrow> string \<Rightarrow> string \<Rightarrow> comment io" where
  "post_pr_comment cfg w pr_number body =
     call (comments_endpoint w) (comment_request cfg pr_number body)"

subsection \<open>\<open>main\<close> and the script\<close>

text \<open>
  The pictograph in the heading of the comment is four code points in the source file
  (U+00F0, U+0178, U+00A4, U+2013), two of them beyond \<^typ>\<open>char\<close>; it is written here
  as the nine bytes the source file holds for it.
\<close>

definition heading_mark :: string where
  "heading_mark = [CHR 0xC3, CHR 0xB0, CHR 0xC5, CHR 0xB8, CHR 0xC2, CHR 0xA4, CHR 0xE2, CHR 0x80, CHR 0x93]"

definition comment_body :: "pylib \<Rightarrow> string \<Rightarrow> json \<Rightarrow> string" where
  "comment_body lib pr_title ai_response =
     ''## '' @ heading_mark @ '' CI/CD Assistant Review\<newline>\<newline>'' @
     ''**PR:** '' @ pr_title @ ''\<newline>\<newline>'' @
     ''**AI analysis:**\<newline>\<newline>'' @
     format_value lib ai_response @ ''\<newline>\<newline>'' @
     ''*(This comment was generated automatically by the repository'' @ [CHR 0x27] @ ''s CI/CD Assistant)*''"

text \<open>The body of the \<open>try\<close> block of \<open>main\<close>.\<close>

definition main_try :: "pylib \<Rightarrow> config \<Rightarrow> world \<Rightarrow> unit io" where
  "main_try lib cfg w =
     bind (print [PStr (''Fetching PR #'' @ PR_NUMBER cfg @ '' meta...'')]) (\<lambda>_.
     bind (get_pr_meta cfg w (PR_NUMBER cfg)) (\<lambda>pr.
     let pr_title = (case title_field pr of None \<Rightarrow> [] | Some t \<Rightarrow> t);
         pr_body = (if truthy (body_field pr) then the (body_field pr) else [])
     in
     bind (print [PStr ''Fetching PR file patches...'']) (\<lambda>_.
     bind (get_pr_files_patches cfg w (PR_NUMBER cfg)) (\<lambda>files.
     let diff_text = build_diff_text files MAX_DIFF_CHARS;
         prompt = build_prompt pr_title pr_body diff_text
     in
     bind (print [PStr ''Calling DeepSeek for analysis (via OpenRouter)...'']) (\<lambda>_.
     bind (call_deepseek lib cfg w prompt) (\<lambda>ai_response.
     bind (print [PStr ''Posting comment to PR...'']) (\<lambda>_.
     bind (post_pr_comment cfg w (PR_NUMBER cfg) (comment_body lib pr_title ai_response)) (\<lambda>post.
     bind (print [PStr ''Posted comment id:'',
                  (case id_field post of None \<Rightarrow> PNone | Some i \<Rightarrow> PInt i)]) (\<lambda>_.
     print [PStr ''Done.''])))))))))"

text \<open>
  \<open>main\<close> with its two handlers. The result is the trace and the status passed to
  \<open>sys.exit\<close>, or \<open>None\<close> when \<open>main\<close> returns.
\<close>

definition main :: "pylib \<Rightarrow> config \<Rightarrow> world \<Rightarrow> event list \<times> nat option" where
  "main lib cfg w =
     (case main_try lib cfg w of
        (evs, Inr u) \<Rightarrow> (evs, None)
      | (evs, Inl (HTTPError status_code text)) \<Rightarrow>
          (evs @ [Print [PStr ''HTTP error:'', PInt status_code, PStr text]], Some 1)
      | (evs, Inl (Exception msg)) \<Rightarrow>
          (evs @ [Print [PStr ''Error:'', PStr msg]], Some 1))"

text \<open>
  The script run as a program: the environment (\<open>os.getenv\<close> gives \<open>None\<close> for a variable
  that is not set), the check at module level, then \<open>main\<close>. The result is the trace and
  the exit status of the process, 0 when the script runs to its end.
\<close>

definition script :: "pylib \<Rightarrow> (string \<rightharpoonup> string) \<Rightarrow> world \<Rightarrow> event list \<times> nat" where
  "script lib getenv w =
     (let repository = getenv ''GITHUB_REPOSITORY'';
          token = getenv ''GITHUB_TOKEN'';
          pr_number = getenv ''PR_NUMBER'';
          api_key = getenv ''OPENROUTER_API_KEY''
      in if \<not> truthy repository \<or> \<not> truthy token \<or> \<not> truthy pr_number \<or> \<not> truthy api_key
         then ([Print [PStr ''ERROR: required environment variables missing. Ensure GITHUB_REPOSITORY, GITHUB_TOKEN, PR_NUMBER, and OPENROUTER_API_KEY are set.'']], 1)
         else (case main lib \<lparr>GITHUB_REPOSITORY = the repository, GITHUB_TOKEN = the token,
                              PR_NUMBER = the pr_number, OPENROUTER_API_KEY = the api_key\<rparr> w of
                 (evs, None) \<Rightarrow> (evs, 0)
               | (evs, Some status) \<Rightarrow> (evs, status)))"

subsection \<open>Reading a trace\<close>

text \<open>The requests of a trace, and the exceptions its requests ended with.\<close>

fun requests :: "event list \<Rightarrow> request list" where
  "requests [] = []"
| "requests (Print args # evs) = requests evs"
| "requests (Http req out # evs) = req # requests evs"



subsection \<open>Example inputs\<close>

definition one_long_file :: "file_change list" where
  "one_long_file = [\<lparr>filename = Some ''a.py'', patch = Some (replicate 20001 CHR ''x'')\<rparr>]"

definition two_files :: "file_change list" where
  "two_files =
     [\<lparr>filename = Some ''a.py'', patch = Some (replicate 19990 CHR ''x'')\<rparr>,
      \<lparr>filename = Some ''b.py'', patch = Some ''Z''\<rparr>]"

definition long_then_binary :: "file_change list" where
  "long_then_binary =
     [\<lparr>filename = Some ''a.bin'', patch = Some (replicate 20001 CHR ''x'')\<rparr>,
      \<lparr>filename = Some ''b.png'', patch = None\<rparr>]"

definition two_small_files :: "file_change list" where
  "two_small_files =
     [\<lparr>filename = Some ''a.py'', patch = Some ''+x''\<rparr>,
      \<lparr>filename = Some ''b.png'', patch = None\<rparr>]"

text \<open>Stand-ins for the two library functions, a configuration and an environment.\<close>

definition stub_lib :: pylib where
  "stub_lib = \<lparr>json_dumps = (\<lambda>v. ''<dumps>''), py_str = (\<lambda>v. ''<str>'')\<rparr>"


definition demo_env :: "string \<rightharpoonup> string" where
  "demo_env = [''GITHUB_REPOSITORY'' \<mapsto> ''o/r'', ''GITHUB_TOKEN'' \<mapsto> ''t'', ''PR_NUMBER'' \<mapsto> ''7'',
               ''OPENROUTER_API_KEY'' \<mapsto> ''k'']"

text \<open>Servers that answer every request well, and the model's answer in the expected shape.\<close>

definition good_answer :: json where
  "good_answer =
     JObj [(''choices'', JArr [JObj [(''message'', JObj [(''content'', JStr ''## Summary'')])]])]"


definition ok_world :: world where
  "ok_world =
     \<lparr>pulls_endpoint = (\<lambda>req. Response 200 ''{...}''
         (Inr \<lparr>title_field = Some ''Fix bug'', body_field = None\<rparr>)),
      files_endpoint = (\<lambda>req. Response 200 ''[...]'' (Inr two_small_files)),
      chat_endpoint = (\<lambda>req. Response 200 ''{...}'' (Inr good_answer)),
      comments_endpoint = (\<lambda>req. Response 201 ''{...}'' (Inr \<lparr>id_field = Some 42\<rparr>))\<rparr>"





text \<open>One file whose patch has a blank context line: a line holding one space.\<close>

definition blank_context_patch :: "file_change list" where
  "blank_context_patch =
     [\<lparr>filename = Some ''f.py'', patch = Some ''@@ -1,3 +1,3 @@\<newline> a\<newline> \<newline>-b\<newline>+c''\<rparr>]"

section \<open>Properties of \<open>build_diff_text\<close>\<close>

lemma diff_parts_fold: "fold (\<lambda>f parts. parts @ [file_part f]) fs acc = acc @ map file_part fs"
  by (induction fs arbitrary: acc) simp_all

lemma diff_parts_map: "diff_parts fs = map file_part fs"
  by (simp add: diff_parts_def diff_parts_fold)

lemma build_diff_text_cases:
  "build_diff_text fs MAX_DIFF_CHARS =
     (if 20000 < length (full_text fs)
      then take 20000 (full_text fs) @ ''\<newline>\<newline>...[diff truncated]...''
      else full_text fs)"
  by (simp add: build_diff_text_def MAX_DIFF_CHARS_def slice_to_def Let_def)

lemma full_text_one_long_file:
  "full_text one_long_file = ''\<newline>\<newline># File: a.py\<newline>'' @ replicate 20001 CHR ''x''"
  by (simp add: full_text_def diff_parts_def one_long_file_def file_part_def get_filename_def
      truthy_def)

text \<open>
  C1. For every list of file changes whose joined text is longer than 20000 characters,
  \<open>build_diff_text\<close> (called with \<open>MAX_DIFF_CHARS\<close>, as \<open>main\<close> calls it) returns the first
  20000 characters of the joined text followed by the truncation suffix, and the length
  of the result is 20000 plus the length of the suffix.
\<close>

theorem build_diff_text_truncated:
  "20000 < length (full_text fs) \<Longrightarrow>
     build_diff_text fs MAX_DIFF_CHARS
       = take 20000 (full_text fs) @ ''\<newline>\<newline>...[diff truncated]...'' \<and>
     length (build_diff_text fs MAX_DIFF_CHARS)
       = 20000 + length ''\<newline>\<newline>...[diff truncated]...''"
  by (simp add: build_diff_text_cases)

theorem build_diff_text_truncated_witness:
  "20000 < length (full_text one_long_file) \<and>
     build_diff_text one_long_file MAX_DIFF_CHARS
       = take 20000 (full_text one_long_file) @ ''\<newline>\<newline>...[diff truncated]...'' \<and>
     length (build_diff_text one_long_file MAX_DIFF_CHARS)
       = 20000 + length ''\<newline>\<newline>...[diff truncated]...''"
proof -
  have h: "20000 < length (full_text one_long_file)"
    by (simp add: full_text_one_long_file)
  show ?thesis
    using h build_diff_text_truncated [OF h] by simp
qed

text \<open>
  C2, as stated: the text that \<open>build_diff_text\<close> returns has at most 20000 characters.
  It fails for one file with a patch of 20001 characters: the result is the 20000
  characters kept and the suffix after them.
\<close>

theorem build_diff_text_over_budget:
  "\<not> length (build_diff_text one_long_file MAX_DIFF_CHARS) \<le> 20000"
  by (simp add: build_diff_text_cases full_text_one_long_file)

text \<open>
  C2, amended. For every list of file changes, the text that \<open>build_diff_text\<close> returns
  has at most 20024 characters: the joined text itself when that has at most 20000
  characters, and otherwise its first 20000 characters and the 24 characters of the
  truncation suffix.
\<close>

theorem build_diff_text_length:
  "length (build_diff_text fs MAX_DIFF_CHARS)
     = (if 20000 < length (full_text fs) then 20000 + 24 else length (full_text fs)) \<and>
   length (build_diff_text fs MAX_DIFF_CHARS) \<le> 20000 + 24"
  by (simp add: build_diff_text_cases)

lemma file_part_split:
  "file_part f = header_line f @ (if truthy (patch f) then patch_text f else placeholder_line f)"
  by (simp add: file_part_def header_line_def placeholder_line_def patch_text_def truthy_def Let_def
      split: option.splits)

lemma file_part_starts: "\<exists>rest. file_part f = (header_line f @ patch_text f) @ rest"
  by (cases "patch f") (auto simp add: file_part_split truthy_def patch_text_def)

lemma blocks_in_order_shift: "blocks_in_order bs s \<Longrightarrow> blocks_in_order bs (x @ s)"
proof (cases bs)
  case Nil
  then show ?thesis by simp
next
  case (Cons b bs')
  assume "blocks_in_order bs s"
  with Cons obtain pre post where "s = pre @ b @ post" "blocks_in_order bs' post"
    by auto
  then have "x @ s = (x @ pre) @ b @ post \<and> blocks_in_order bs' post"
    by simp
  then have "\<exists>pre' post'. x @ s = pre' @ b @ post' \<and> blocks_in_order bs' post'"
    by blast
  then show ?thesis
    by (simp add: Cons)
qed

lemma blocks_in_order_sublist: "blocks_in_order bs s \<Longrightarrow> b \<in> set bs \<Longrightarrow> sublist b s"
proof (induction bs arbitrary: s)
  case Nil
  then show ?case by simp
next
  case (Cons c cs)
  from Cons.prems(1) obtain pre post where s: "s = pre @ c @ post" and r: "blocks_in_order cs post"
    by auto
  show ?case
  proof (cases "b = c")
    case True
    with s show ?thesis by simp
  next
    case False
    with Cons.prems(2) have "b \<in> set cs" by simp
    with Cons.IH r have "sublist b post" by blast
    then have "sublist b ((pre @ c) @ post)"
      by (meson sublist_order.order_trans suffix_imp_sublist suffixI)
    with s show ?thesis by simp
  qed
qed

lemma join_Cons: "join sep (p # ps) = p @ (if ps = [] then [] else sep @ join sep ps)"
  by (cases ps) simp_all

lemma blocks_in_join:
  "blocks_in_order (map (\<lambda>f. header_line f @ patch_text f) fs) (join sep (map file_part fs))"
proof (induction fs)
  case Nil
  then show ?case by simp
next
  case (Cons f fs)
  obtain rest where r: "file_part f = (header_line f @ patch_text f) @ rest"
    using file_part_starts by blast
  let ?tail = "if fs = [] then [] else sep @ join sep (map file_part fs)"
  have t: "blocks_in_order (map (\<lambda>f. header_line f @ patch_text f) fs) (rest @ ?tail)"
  proof (cases "fs = []")
    case True
    then show ?thesis by simp
  next
    case False
    then show ?thesis
      using blocks_in_order_shift [OF Cons.IH, of "rest @ sep"] by simp
  qed
  have "join sep (map file_part (f # fs)) = [] @ (header_line f @ patch_text f) @ (rest @ ?tail)"
    using r by (simp add: join_Cons)
  with t have "\<exists>pre post. join sep (map file_part (f # fs)) = pre @ (header_line f @ patch_text f) @ post
      \<and> blocks_in_order (map (\<lambda>f. header_line f @ patch_text f) fs) post"
    by blast
  then show ?case
    by simp
qed

lemma sublist_join: "p \<in> set ps \<Longrightarrow> sublist p (join sep ps)"
proof (induction ps)
  case Nil
  then show ?case by simp
next
  case (Cons q qs)
  show ?case
  proof (cases "p = q")
    case True
    then show ?thesis by (simp add: join_Cons)
  next
    case False
    with Cons have "sublist p (join sep qs)" "qs \<noteq> []" by auto
    then have "sublist p ((q @ sep) @ join sep qs)"
      by (meson sublist_order.order_trans suffix_imp_sublist suffixI)
    with \<open>qs \<noteq> []\<close> show ?thesis by (simp add: join_Cons)
  qed
qed

lemma full_text_two_files:
  "full_text two_files = (''\<newline>\<newline># File: a.py\<newline>'' @ replicate 19990 CHR ''x'')
      @ ''\<newline>\<newline>\<newline># File: b.py\<newline>Z''"
  by (simp add: full_text_def diff_parts_def two_files_def file_part_def get_filename_def truthy_def)

lemma two_files_no_Z: "CHR ''Z'' \<notin> set (build_diff_text two_files MAX_DIFF_CHARS)"
  by (auto simp add: build_diff_text_cases full_text_two_files dest: in_set_takeD)

lemma full_text_two_small_files: "length (full_text two_small_files) \<le> 20000"
  by (simp add: full_text_def diff_parts_def two_small_files_def file_part_def get_filename_def
      truthy_def)

text \<open>
  C3, as stated: when the patches of the files, concatenated, stay under 20000
  characters, the result holds each file's header followed by its patch, in the order
  of the list. It fails for two files with patches of 19990 characters and of the one
  character \<open>Z\<close>: the patches together have 19991 characters, but the budget is applied to
  the joined text, which also holds a header for each file and the separators, so the
  text is cut inside the first file and the patch of the second is not in the result.
\<close>

theorem build_diff_text_headers_count:
  "length (concat (map patch_text two_files)) < 20000 \<and>
   \<not> sublist (patch_text (two_files ! 1)) (build_diff_text two_files MAX_DIFF_CHARS) \<and>
   \<not> blocks_in_order (map (\<lambda>f. header_line f @ patch_text f) two_files)
        (build_diff_text two_files MAX_DIFF_CHARS)"
proof -
  have a: "length (concat (map patch_text two_files)) < 20000"
    by (simp add: two_files_def patch_text_def)
  have p: "patch_text (two_files ! 1) = ''Z''"
    by (simp add: two_files_def patch_text_def)
  have b: "\<not> sublist (patch_text (two_files ! 1)) (build_diff_text two_files MAX_DIFF_CHARS)"
    unfolding p
    using two_files_no_Z set_mono_sublist [of "''Z''" "build_diff_text two_files MAX_DIFF_CHARS"]
    by auto
  have c: "\<not> blocks_in_order (map (\<lambda>f. header_line f @ patch_text f) two_files)
        (build_diff_text two_files MAX_DIFF_CHARS)"
  proof
    assume "blocks_in_order (map (\<lambda>f. header_line f @ patch_text f) two_files)
        (build_diff_text two_files MAX_DIFF_CHARS)"
    then have "sublist (header_line (two_files ! 1) @ patch_text (two_files ! 1))
        (build_diff_text two_files MAX_DIFF_CHARS)"
      by (rule blocks_in_order_sublist) (simp add: two_files_def)
    then have "CHR ''Z'' \<in> set (build_diff_text two_files MAX_DIFF_CHARS)"
      unfolding p using set_mono_sublist by fastforce
    with two_files_no_Z show False by simp
  qed
  from a b c show ?thesis by blast
qed

text \<open>
  C3, amended. For every list of file changes whose joined text (the headers, the
  patches or placeholders, and the separators between the files) has at most 20000
  characters, the string returned by \<open>build_diff_text\<close> holds, for every file of the
  list, the header line that names the file followed by the file's patch text, and
  these blocks come one after the other in the order of the list.
\<close>

theorem build_diff_text_within_budget:
  "length (full_text fs) \<le> 20000 \<Longrightarrow>
     blocks_in_order (map (\<lambda>f. header_line f @ patch_text f) fs) (build_diff_text fs MAX_DIFF_CHARS)"
  using blocks_in_join [of fs]
  by (simp add: build_diff_text_cases full_text_def diff_parts_map)

theorem build_diff_text_within_budget_witness:
  "length (full_text two_small_files) \<le> 20000 \<and>
   blocks_in_order (map (\<lambda>f. header_line f @ patch_text f) two_small_files)
     (build_diff_text two_small_files MAX_DIFF_CHARS)"
proof -
  have h: "length (full_text two_small_files) \<le> 20000"
    by (rule full_text_two_small_files)
  show ?thesis
    using h build_diff_text_within_budget [OF h] by blast
qed

lemma full_text_long_then_binary:
  "full_text long_then_binary = (''\<newline>\<newline># File: a.bin\<newline>'' @ replicate 20001 CHR ''x'')
      @ ''\<newline>\<newline>\<newline># File: b.png\<newline>[no patch available for b.png (binary or too large)]''"
  by (simp add: full_text_def diff_parts_def long_then_binary_def file_part_def get_filename_def
      truthy_def)

lemma long_then_binary_no_p: "CHR ''p'' \<notin> set (build_diff_text long_then_binary MAX_DIFF_CHARS)"
  by (auto simp add: build_diff_text_cases full_text_long_then_binary dest: in_set_takeD)

text \<open>
  C4, as stated: every file without a patch gets its placeholder line after its header
  in what \<open>build_diff_text\<close> produces, never a missing section. It fails for a file with a
  patch of 20001 characters followed by a file without a patch: the joined text is cut
  inside the first file, and the result holds neither the placeholder of the second
  file nor its name.
\<close>

theorem placeholder_cut_off:
  "patch (long_then_binary ! 1) = None \<and>
   \<not> sublist ''[no patch available for b.png (binary or too large)]''
        (build_diff_text long_then_binary MAX_DIFF_CHARS) \<and>
   \<not> sublist ''b.png'' (build_diff_text long_then_binary MAX_DIFF_CHARS)"
proof -
  have a: "patch (long_then_binary ! 1) = None"
    by (simp add: long_then_binary_def)
  have b: "\<not> sublist ''[no patch available for b.png (binary or too large)]''
        (build_diff_text long_then_binary MAX_DIFF_CHARS)"
    using long_then_binary_no_p
      set_mono_sublist [of "''[no patch available for b.png (binary or too large)]''"
        "build_diff_text long_then_binary MAX_DIFF_CHARS"]
    by auto
  have c: "\<not> sublist ''b.png'' (build_diff_text long_then_binary MAX_DIFF_CHARS)"
    using long_then_binary_no_p
      set_mono_sublist [of "''b.png''" "build_diff_text long_then_binary MAX_DIFF_CHARS"]
    by auto
  from a b c show ?thesis by blast
qed

text \<open>
  C4, amended. For every file change without a patch field, the text that
  \<open>build_diff_text\<close> joins holds the file's header followed by the placeholder line that
  names the file; when the joined text has at most 20000 characters the returned string
  holds them too, and otherwise the returned string is the first 20000 characters of
  the joined text and the truncation suffix.
\<close>

theorem placeholder_for_missing_patch:
  assumes "f \<in> set fs" and "patch f = None"
  shows "sublist (''\<newline>\<newline># File: '' @ get_filename f @ ''\<newline>[no patch available for ''
                    @ get_filename f @ '' (binary or too large)]'') (full_text fs) \<and>
         (if length (full_text fs) \<le> 20000
          then sublist (''\<newline>\<newline># File: '' @ get_filename f @ ''\<newline>[no patch available for ''
                    @ get_filename f @ '' (binary or too large)]'') (build_diff_text fs MAX_DIFF_CHARS)
          else build_diff_text fs MAX_DIFF_CHARS
                 = take 20000 (full_text fs) @ ''\<newline>\<newline>...[diff truncated]...'')"
proof -
  have "file_part f = ''\<newline>\<newline># File: '' @ get_filename f @ ''\<newline>[no patch available for ''
                    @ get_filename f @ '' (binary or too large)]''"
    using assms(2) by (simp add: file_part_def truthy_def Let_def)
  moreover have "sublist (file_part f) (full_text fs)"
    using assms(1) by (simp add: full_text_def diff_parts_map sublist_join)
  ultimately show ?thesis
    by (simp add: build_diff_text_cases)
qed

theorem placeholder_for_missing_patch_witness:
  "\<lparr>filename = Some ''b.png'', patch = None\<rparr> \<in> set two_small_files \<and>
   patch \<lparr>filename = Some ''b.png'', patch = None\<rparr> = None \<and>
   sublist ''\<newline>\<newline># File: b.png\<newline>[no patch available for b.png (binary or too large)]''
     (full_text two_small_files) \<and>
   sublist ''\<newline>\<newline># File: b.png\<newline>[no patch available for b.png (binary or too large)]''
     (build_diff_text two_small_files MAX_DIFF_CHARS)"
proof -
  have m: "\<lparr>filename = Some ''b.png'', patch = None\<rparr> \<in> set two_small_files"
    by (simp add: two_small_files_def)
  have n: "patch \<lparr>filename = Some ''b.png'', patch = None\<rparr> = None"
    by simp
  have h: "length (full_text two_small_files) \<le> 20000"
    by (rule full_text_two_small_files)
  show ?thesis
    using m n h placeholder_for_missing_patch [OF m n]
    by (simp add: get_filename_def)
qed



section \<open>Properties of the script\<close>

subsection \<open>The check of the environment\<close>

lemma truthy_None: "\<not> truthy None"
  by (simp add: truthy_def)

lemma truthy_empty: "\<not> truthy (Some [])"
  by (simp add: truthy_def)

text \<open>
  C5. If one of the four required environment variables is absent, the process prints
  the diagnostic message and exits with status 1, and its trace holds no request: no
  network call is attempted.
\<close>

theorem missing_variable_exits:
  assumes "k \<in> {''GITHUB_REPOSITORY'', ''GITHUB_TOKEN'', ''PR_NUMBER'', ''OPENROUTER_API_KEY''}"
      and "getenv k = None"
  shows "script lib getenv w =
           ([Print [PStr ''ERROR: required environment variables missing. Ensure GITHUB_REPOSITORY, GITHUB_TOKEN, PR_NUMBER, and OPENROUTER_API_KEY are set.'']], 1) \<and>
         requests (fst (script lib getenv w)) = []"
  using assms by (auto simp add: script_def truthy_None)

theorem missing_variable_exits_witness:
  "''GITHUB_TOKEN'' \<in> {''GITHUB_REPOSITORY'', ''GITHUB_TOKEN'', ''PR_NUMBER'', ''OPENROUTER_API_KEY''} \<and>
   (demo_env(''GITHUB_TOKEN'' := None)) ''GITHUB_TOKEN'' = None \<and>
   script stub_lib (demo_env(''GITHUB_TOKEN'' := None)) ok_world =
     ([Print [PStr ''ERROR: required environment variables missing. Ensure GITHUB_REPOSITORY, GITHUB_TOKEN, PR_NUMBER, and OPENROUTER_API_KEY are set.'']], 1) \<and>
   requests (fst (script stub_lib (demo_env(''GITHUB_TOKEN'' := None)) ok_world)) = []"
proof -
  have k: "''GITHUB_TOKEN'' \<in> {''GITHUB_REPOSITORY'', ''GITHUB_TOKEN'', ''PR_NUMBER'', ''OPENROUTER_API_KEY''}"
    by simp
  have n: "(demo_env(''GITHUB_TOKEN'' := None)) ''GITHUB_TOKEN'' = None"
    by simp
  show ?thesis
    using k n missing_variable_exits [where k = "''GITHUB_TOKEN''" and lib = stub_lib
        and getenv = "demo_env(''GITHUB_TOKEN'' := None)" and w = ok_world]
    by blast
qed

text \<open>
  C10. An environment variable that is set to the empty string is treated as absent:
  the process prints the same diagnostic message and exits with status 1, and the run
  is the run of the same environment with the variable unset.
\<close>

theorem empty_variable_like_missing:
  assumes "k \<in> {''GITHUB_REPOSITORY'', ''GITHUB_TOKEN'', ''PR_NUMBER'', ''OPENROUTER_API_KEY''}"
      and "getenv k = Some ''''"
  shows "script lib getenv w =
           ([Print [PStr ''ERROR: required environment variables missing. Ensure GITHUB_REPOSITORY, GITHUB_TOKEN, PR_NUMBER, and OPENROUTER_API_KEY are set.'']], 1) \<and>
         script lib getenv w = script lib (getenv(k := None)) w"
  using assms by (auto simp add: script_def truthy_None truthy_empty)

theorem empty_variable_like_missing_witness:
  "''PR_NUMBER'' \<in> {''GITHUB_REPOSITORY'', ''GITHUB_TOKEN'', ''PR_NUMBER'', ''OPENROUTER_API_KEY''} \<and>
   (demo_env(''PR_NUMBER'' \<mapsto> '''')) ''PR_NUMBER'' = Some '''' \<and>
   script stub_lib (demo_env(''PR_NUMBER'' \<mapsto> '''')) ok_world =
     ([Print [PStr ''ERROR: required environment variables missing. Ensure GITHUB_REPOSITORY, GITHUB_TOKEN, PR_NUMBER, and OPENROUTER_API_KEY are set.'']], 1) \<and>
   script stub_lib (demo_env(''PR_NUMBER'' \<mapsto> '''')) ok_world
     = script stub_lib ((demo_env(''PR_NUMBER'' \<mapsto> ''''))(''PR_NUMBER'' := None)) ok_world"
proof -
  have k: "''PR_NUMBER'' \<in> {''GITHUB_REPOSITORY'', ''GITHUB_TOKEN'', ''PR_NUMBER'', ''OPENROUTER_API_KEY''}"
    by simp
  have n: "(demo_env(''PR_NUMBER'' \<mapsto> '''')) ''PR_NUMBER'' = Some ''''"
    by simp
  show ?thesis
    using k n empty_variable_like_missing [where k = "''PR_NUMBER''" and lib = stub_lib
        and getenv = "demo_env(''PR_NUMBER'' \<mapsto> '''')" and w = ok_world]
    by blast
qed

subsection \<open>Traces of \<open>main\<close>\<close>




















subsection \<open>The answer of the model\<close>

lemma content_path_good_answer: "content_path good_answer = Inr (JStr ''## Summary'')"
  by (simp add: content_path_def good_answer_def)







subsection \<open>The prompt\<close>

text \<open>
  What \<open>dedent\<close> keeps whatever the text: a line that holds a character other than a
  space or a tab keeps everything from that character on, since the margin is a prefix
  of the blanks that start the line.
\<close>

lemma split_lines_nonempty: "split_lines s \<noteq> []"
  by (induction s) (auto split: list.splits)

lemma split_lines_line:
  "CHR ''\<newline>'' \<notin> set l \<Longrightarrow> split_lines (l @ CHR ''\<newline>'' # rest) = l # split_lines rest"
  by (induction l) (auto split: list.splits)

lemma cut_at_mismatch_prefix_left: "prefix (cut_at_mismatch m i) m"
  by (induction m i rule: cut_at_mismatch.induct) simp_all

lemma cut_at_mismatch_prefix_right: "\<not> prefix i m \<Longrightarrow> prefix (cut_at_mismatch m i) i"
  by (induction m i rule: cut_at_mismatch.induct) auto

lemma margin_step_prefix:
  "margin_step i (Some m) = Some r \<Longrightarrow> prefix r m \<and> prefix r i"
  by (auto simp add: cut_at_mismatch_prefix_left cut_at_mismatch_prefix_right split: if_splits)

lemma margin_step_Some: "\<exists>r. margin_step i mo = Some r"
  by (cases mo) auto

lemma fold_margin_prefix:
  "fold margin_step is (Some m) = Some r \<Longrightarrow> prefix r m \<and> (\<forall>i \<in> set is. prefix r i)"
proof (induction "is" arbitrary: m)
  case Nil
  then show ?case by simp
next
  case (Cons i "is")
  obtain m' where s: "margin_step i (Some m) = Some m'"
    using margin_step_Some by blast
  with Cons.prems have "fold margin_step is (Some m') = Some r" by simp
  with Cons.IH have "prefix r m'" "\<forall>i \<in> set is. prefix r i" by blast+
  moreover from s have "prefix m' m" "prefix m' i"
    using margin_step_prefix by blast+
  ultimately show ?case
    by (auto intro: prefix_order.order_trans)
qed

lemma margin_prefix_of_indents:
  assumes "fold margin_step is None = Some r" and "i \<in> set is"
  shows "prefix r i"
proof (cases "is")
  case Nil
  with assms show ?thesis by simp
next
  case (Cons j js)
  with assms(1) have "fold margin_step js (Some j) = Some r" by simp
  then have "prefix r j" "\<forall>i \<in> set js. prefix r i"
    using fold_margin_prefix by blast+
  with assms(2) Cons show ?thesis by auto
qed

lemma line_in_dedent:
  assumes "ind @ h \<in> set (split_lines text)" and "list_all is_blank ind"
      and "h \<noteq> []" and "\<not> is_blank (hd h)"
  shows "sublist h (dedent text)"
proof -
  let ?ls = "map blank_out (split_lines text)"
  let ?margin = "fold margin_step (indents ?ls) None"
  from assms(3,4) have nb: "\<not> list_all is_blank (ind @ h)"
    by (cases h) simp_all
  then have "blank_out (ind @ h) = ind @ h"
    by (metis blank_out_def)
  with assms(1) have mem: "ind @ h \<in> set ?ls"
    by force
  have tw: "takeWhile is_blank (ind @ h) = ind" and dw: "dropWhile is_blank (ind @ h) = h"
    using assms(2,3,4) by (cases h; simp add: list_all_iff takeWhile_append2 dropWhile_append2)+
  from mem dw assms(3) have ind: "ind \<in> set (indents ?ls)"
    unfolding indents_def using tw by force
  show ?thesis
  proof (cases "truthy ?margin")
    case True
    then obtain m where m: "?margin = Some m"
      by (auto simp add: truthy_def split: option.splits)
    with ind have "prefix m ind"
      using margin_prefix_of_indents by blast
    then obtain r where r: "ind = m @ r"
      by (auto simp add: prefix_def)
    then have "strip_margin m (ind @ h) = r @ h"
      by (simp add: strip_margin_def)
    with mem have "r @ h \<in> set (map (strip_margin m) ?ls)"
      by force
    then have "sublist (r @ h) (join ''\<newline>'' (map (strip_margin m) ?ls))"
      by (rule sublist_join)
    moreover have "sublist h (r @ h)"
      by simp
    ultimately have "sublist h (join ''\<newline>'' (map (strip_margin m) ?ls))"
      by (rule sublist_order.order_trans [rotated])
    with True m show ?thesis
      by (simp add: dedent_def Let_def)
  next
    case False
    from mem have "sublist (ind @ h) (join ''\<newline>'' ?ls)"
      by (rule sublist_join)
    moreover have "sublist h (ind @ h)"
      by simp
    ultimately have "sublist h (join ''\<newline>'' ?ls)"
      by (rule sublist_order.order_trans [rotated])
    with False show ?thesis
      by (simp add: dedent_def Let_def)
  qed
qed

lemma split_lines_complete:
  "list_all (\<lambda>l. CHR ''\<newline>'' \<notin> set l) ls \<Longrightarrow>
     split_lines (concat (map (\<lambda>l. l @ ''\<newline>'') ls) @ tail) = ls @ split_lines tail"
  by (induction ls) (simp_all add: split_lines_line)

lemma template_head_lines: "list_all (\<lambda>l. CHR ''\<newline>'' \<notin> set l) template_head"
  by (simp add: template_head_def)

lemma build_prompt_split:
  "\<exists>tail. build_prompt pr_title pr_body diff_text
      = dedent (concat (map (\<lambda>l. l @ ''\<newline>'') template_head) @ tail)"
  unfolding build_prompt_def template_head_def
  by (rule exI [where x = "''\<newline>'' @ ''    PR Title:\<newline>'' @
        ''    '' @ pr_title @ ''\<newline>'' @
        ''\<newline>'' @
        ''    PR Description:\<newline>'' @
        ''    '' @ pr_body @ ''\<newline>'' @
        ''\<newline>'' @
        ''    Diff (truncated):\<newline>'' @
        ''    '' @ diff_text @ ''\<newline>'' @
        ''\<newline>'' @
        ''    IMPORTANT: Keep the answer concise and practical.\<newline>'' @
        ''    ''"]) simp

text \<open>
  The four headings are in every prompt. (The blanks in front of them are not always
  removed: the margin is computed over the inserted text too.)
\<close>

lemma build_prompt_headings:
  "sublist ''## Improved PR Description'' (build_prompt pr_title pr_body diff_text) \<and>
   sublist ''## Summary'' (build_prompt pr_title pr_body diff_text) \<and>
   sublist ''## Suggested Tests'' (build_prompt pr_title pr_body diff_text) \<and>
   sublist ''## Notes'' (build_prompt pr_title pr_body diff_text)"
proof -
  obtain tail where t: "build_prompt pr_title pr_body diff_text
      = dedent (concat (map (\<lambda>l. l @ ''\<newline>'') template_head) @ tail)"
    using build_prompt_split by blast
  have s: "split_lines (concat (map (\<lambda>l. l @ ''\<newline>'') template_head) @ tail)
      = template_head @ split_lines tail"
    by (rule split_lines_complete [OF template_head_lines])
  have "sublist h (build_prompt pr_title pr_body diff_text)"
    if "''    '' @ h \<in> set template_head" and "h \<noteq> []" and "\<not> is_blank (hd h)" for h
    unfolding t
    by (rule line_in_dedent [where ind = "''    ''"]) (use that in \<open>simp_all add: s is_blank_def\<close>)
  then show ?thesis
    by (simp add: template_head_def is_blank_def)
qed

lemma diff_text_blank_context_patch:
  "build_diff_text blank_context_patch MAX_DIFF_CHARS
     = ''\<newline>\<newline># File: f.py\<newline>@@ -1,3 +1,3 @@\<newline> a\<newline> \<newline>-b\<newline>+c''"
  by (simp add: build_diff_text_cases full_text_def diff_parts_def blank_context_patch_def file_part_def
      get_filename_def truthy_def)

text \<open>
  C8 at one input: the diff text of a file whose patch has a blank context line. The
  prompt does not hold the diff text it was given: \<open>dedent\<close> has emptied the line that
  held one space, and the prompt holds the diff text with that line empty. The header of
  the file starts in the first column, so the margin is empty and the lines of the
  template keep their four spaces.
\<close>

theorem build_prompt_changes_diff:
  "\<not> sublist (build_diff_text blank_context_patch MAX_DIFF_CHARS)
       (build_prompt ''Fix bug'' ''desc'' (build_diff_text blank_context_patch MAX_DIFF_CHARS)) \<and>
   sublist ''\<newline>\<newline># File: f.py\<newline>@@ -1,3 +1,3 @@\<newline> a\<newline>\<newline>-b\<newline>+c''
       (build_prompt ''Fix bug'' ''desc'' (build_diff_text blank_context_patch MAX_DIFF_CHARS)) \<and>
   sublist ''\<newline>    ## Summary\<newline>''
       (build_prompt ''Fix bug'' ''desc'' (build_diff_text blank_context_patch MAX_DIFF_CHARS))"
  unfolding diff_text_blank_context_patch
  by code_simp

end
